theory Spec2Isabelle
  imports Complex_Main "HOL-Library.Multiset"
begin

section \<open>Data model of FPL\_API.py\<close>

text \<open>
  The module fetches fixtures from the Fantasy Premier League API, flattens each fixture
  into two fixture-difficulty rows (\<open>get_fpl_fdr\<close>) and ranks the clubs by the mean
  difficulty of their next five fixtures (\<open>analyze_next_5_fixtures_fdr\<close>).

  Network and file access are inputs of the model: \<open>get_fpl_fdr\<close> takes the decoded
  \<open>teams\<close> dictionary and the decoded list of fixtures, and the analysis takes the
  content of \<open>fpl_fdr_all.xlsx\<close> (\<open>None\<close> when the file does not exist). The
  spreadsheet written at the end and the console messages are not modelled.
\<close>

datatype py_exception = KeyError

text \<open>
  One element of the fixtures payload, with the keys \<open>get_fpl_fdr\<close> reads (\<open>fx_id\<close>
  is the key \<open>id\<close>). Field names shared by several records are written qualified.
\<close>

record fixture =
  fx_id :: int
  event :: int
  team_h :: int
  team_a :: int
  team_h_difficulty :: int
  team_a_difficulty :: int
  kickoff_time :: string
  finished :: bool

text \<open>One row of the FDR table: one team's view of one fixture.\<close>

record fdr =
  fixture_id :: int
  gameweek :: int
  team :: string
  opponent :: string
  home_away :: string
  difficulty_rating :: int
  kickoff_time :: string
  finished :: bool

text \<open>
  A spreadsheet cell that holds a number, or the empty string of an unused slot
  (the source writes \<open>''\<close> into the \<open>gwN_fdr\<close> column when the club has fewer than
  \<open>N\<close> fixtures).
\<close>

datatype cell = Number int | Blank

text \<open>
  One element of \<open>team_analysis\<close>: the dictionary built for one club. The mean is a
  Python float in the source; the model keeps it as an exact rational.
\<close>

record analysis =
  team :: string
  fixtures_analyzed :: nat
  average_fdr :: rat
  total_fdr :: int
  gw1_opponent :: string
  gw1_fdr :: cell
  gw1_home_away :: string
  gw2_opponent :: string
  gw2_fdr :: cell
  gw2_home_away :: string
  gw3_opponent :: string
  gw3_fdr :: cell
  gw3_home_away :: string
  gw4_opponent :: string
  gw4_fdr :: cell
  gw4_home_away :: string
  gw5_opponent :: string
  gw5_fdr :: cell
  gw5_home_away :: string

section \<open>Flattening: \<open>get_fpl_fdr\<close>\<close>

text \<open>
  \<open>teams[k]\<close> raises \<open>KeyError\<close> when the id is not a key of the dictionary.
\<close>

definition lookup_team :: "(int \<rightharpoonup> string) \<Rightarrow> int \<Rightarrow> py_exception + string" where
  "lookup_team teams k = (case teams k of None \<Rightarrow> Inl KeyError | Some n \<Rightarrow> Inr n)"

text \<open>The two dictionaries appended for one fixture, home side first.\<close>

definition home_entry :: "string \<Rightarrow> string \<Rightarrow> fixture \<Rightarrow> fdr" where
  "home_entry h a fx =
     \<lparr>fixture_id = fx_id fx, gameweek = event fx, team = h, opponent = a,
      home_away = ''Home'', difficulty_rating = team_h_difficulty fx,
      kickoff_time = fixture.kickoff_time fx, finished = fixture.finished fx\<rparr>"

definition away_entry :: "string \<Rightarrow> string \<Rightarrow> fixture \<Rightarrow> fdr" where
  "away_entry h a fx =
     \<lparr>fixture_id = fx_id fx, gameweek = event fx, team = a, opponent = h,
      home_away = ''Away'', difficulty_rating = team_a_difficulty fx,
      kickoff_time = fixture.kickoff_time fx, finished = fixture.finished fx\<rparr>"

text \<open>
  The loop over \<open>fixtures_data\<close>, with \<open>fdr_data\<close> as the accumulator. A failed lookup
  raises out of the loop.
\<close>

fun extract_fdr :: "(int \<rightharpoonup> string) \<Rightarrow> fdr list \<Rightarrow> fixture list \<Rightarrow> py_exception + fdr list" where
  "extract_fdr teams fdr_data [] = Inr fdr_data"
| "extract_fdr teams fdr_data (fx # rest) =
     (case lookup_team teams (team_h fx) of
        Inl e \<Rightarrow> Inl e
      | Inr h \<Rightarrow>
          (case lookup_team teams (team_a fx) of
             Inl e \<Rightarrow> Inl e
           | Inr a \<Rightarrow> extract_fdr teams (fdr_data @ [home_entry h a fx, away_entry h a fx]) rest))"

text \<open>
  The function returns the table, or \<open>None\<close> from its \<open>except Exception\<close> handler.
\<close>

definition get_fpl_fdr :: "(int \<rightharpoonup> string) \<Rightarrow> fixture list \<Rightarrow> fdr list option" where
  "get_fpl_fdr teams fixtures_data =
     (case extract_fdr teams [] fixtures_data of Inl e \<Rightarrow> None | Inr fdr_data \<Rightarrow> Some fdr_data)"

section \<open>Analysis: \<open>analyze_next_5_fixtures_fdr\<close>\<close>

text \<open>
  \<open>DataFrame.sort_values\<close> is library code. The source calls it with the default
  \<open>kind\<close>, for which pandas promises a sorted rearrangement of the rows and no
  particular order among rows with equal keys. The model takes the two sorts the
  analysis performs as parameters, and \<open>sorts_by\<close> is all it assumes of them.
\<close>

definition sorts_by :: "('a \<Rightarrow> 'k::linorder) \<Rightarrow> ('a list \<Rightarrow> 'a list) \<Rightarrow> bool" where
  "sorts_by key srt = (\<forall>xs. mset (srt xs) = mset xs \<and> sorted (map key (srt xs)))"

text \<open>\<open>Series.unique()\<close>: the distinct values in order of first appearance.\<close>

fun unique :: "'a list \<Rightarrow> 'a list" where
  "unique [] = []"
| "unique (x # xs) = x # unique (filter (\<lambda>y. y \<noteq> x) xs)"

text \<open>The rows with \<open>start_gameweek \<le> gameweek \<le> end_gameweek\<close>.\<close>

definition next_5_df :: "fdr list \<Rightarrow> int \<Rightarrow> fdr list" where
  "next_5_df df start_gameweek =
     (let end_gameweek = start_gameweek + 4
      in filter (\<lambda>r. gameweek r \<ge> start_gameweek \<and> gameweek r \<le> end_gameweek) df)"

text \<open>\<open>team_data\<close>: the club's rows of the filtered table, sorted by gameweek.\<close>

definition team_data :: "(fdr list \<Rightarrow> fdr list) \<Rightarrow> fdr list \<Rightarrow> string \<Rightarrow> fdr list" where
  "team_data sort_gameweek n5 t = sort_gameweek (filter (\<lambda>r. fdr.team r = t) n5)"

text \<open>\<open>fixtures = team_data.head(5)\<close>.\<close>

definition fixtures :: "(fdr list \<Rightarrow> fdr list) \<Rightarrow> fdr list \<Rightarrow> string \<Rightarrow> fdr list" where
  "fixtures sort_gameweek n5 t = take 5 (team_data sort_gameweek n5 t)"

text \<open>\<open>Series.mean()\<close> and \<open>Series.sum()\<close> of the \<open>difficulty_rating\<close> column.\<close>

definition total :: "fdr list \<Rightarrow> int" where
  "total fs = sum_list (map difficulty_rating fs)"

definition mean :: "fdr list \<Rightarrow> rat" where
  "mean fs = of_int (total fs) / of_nat (length fs)"

text \<open>The dictionary appended to \<open>team_analysis\<close> for one club.\<close>

definition team_entry :: "string \<Rightarrow> fdr list \<Rightarrow> analysis" where
  "team_entry t fs =
     \<lparr>team = t,
      fixtures_analyzed = length fs,
      average_fdr = mean fs,
      total_fdr = total fs,
      gw1_opponent = (if length fs > 0 then opponent (fs ! 0) else ''''),
      gw1_fdr = (if length fs > 0 then Number (difficulty_rating (fs ! 0)) else Blank),
      gw1_home_away = (if length fs > 0 then home_away (fs ! 0) else ''''),
      gw2_opponent = (if length fs > 1 then opponent (fs ! 1) else ''''),
      gw2_fdr = (if length fs > 1 then Number (difficulty_rating (fs ! 1)) else Blank),
      gw2_home_away = (if length fs > 1 then home_away (fs ! 1) else ''''),
      gw3_opponent = (if length fs > 2 then opponent (fs ! 2) else ''''),
      gw3_fdr = (if length fs > 2 then Number (difficulty_rating (fs ! 2)) else Blank),
      gw3_home_away = (if length fs > 2 then home_away (fs ! 2) else ''''),
      gw4_opponent = (if length fs > 3 then opponent (fs ! 3) else ''''),
      gw4_fdr = (if length fs > 3 then Number (difficulty_rating (fs ! 3)) else Blank),
      gw4_home_away = (if length fs > 3 then home_away (fs ! 3) else ''''),
      gw5_opponent = (if length fs > 4 then opponent (fs ! 4) else ''''),
      gw5_fdr = (if length fs > 4 then Number (difficulty_rating (fs ! 4)) else Blank),
      gw5_home_away = (if length fs > 4 then home_away (fs ! 4) else '''')\<rparr>"

text \<open>
  The loop over \<open>next_5_df['team'].unique()\<close>: a club gets an entry when its
  \<open>team_data\<close> is not empty.
\<close>

definition team_analysis :: "(fdr list \<Rightarrow> fdr list) \<Rightarrow> fdr list \<Rightarrow> analysis list" where
  "team_analysis sort_gameweek n5 =
     concat (map (\<lambda>t. if length (team_data sort_gameweek n5 t) > 0
                       then [team_entry t (fixtures sort_gameweek n5 t)] else [])
                 (unique (map fdr.team n5)))"

text \<open>
  The body of the \<open>try\<close> block. \<open>Inr None\<close> is the early \<open>return None\<close> for a missing
  file; \<open>sort_values('average_fdr')\<close> on the frame built from an empty list, which has
  no columns, raises \<open>KeyError\<close>. A returned row is paired with its \<open>fdr_rank\<close>.
\<close>

definition analyze_body ::
  "(fdr list \<Rightarrow> fdr list) \<Rightarrow> (analysis list \<Rightarrow> analysis list) \<Rightarrow> fdr list option \<Rightarrow> int
     \<Rightarrow> py_exception + (nat \<times> analysis) list option" where
  "analyze_body sort_gameweek sort_average file start_gameweek =
     (case file of
        None \<Rightarrow> Inr None
      | Some df \<Rightarrow>
          (let ta = team_analysis sort_gameweek (next_5_df df start_gameweek)
           in if ta = [] then Inl KeyError
              else (let analysis_df = sort_average ta
                    in Inr (Some (zip [1 ..< Suc (length analysis_df)] analysis_df)))))"

text \<open>The function: every exception is caught, reported and turned into \<open>None\<close>.\<close>

definition analyze_next_5_fixtures_fdr ::
  "(fdr list \<Rightarrow> fdr list) \<Rightarrow> (analysis list \<Rightarrow> analysis list) \<Rightarrow> fdr list option \<Rightarrow> int
     \<Rightarrow> (nat \<times> analysis) list option" where
  "analyze_next_5_fixtures_fdr sort_gameweek sort_average file start_gameweek =
     (case analyze_body sort_gameweek sort_average file start_gameweek of
        Inl e \<Rightarrow> None
      | Inr r \<Rightarrow> r)"

text \<open>
  The windower contract in the specification's words: the team's entries whose gameweek
  lies in \<open>[g, g + 4]\<close>, in table order. The window the source computes is compared
  with it below.
\<close>

definition entries_in_range :: "fdr list \<Rightarrow> int \<Rightarrow> string \<Rightarrow> fdr list" where
  "entries_in_range df g t =
     filter (\<lambda>r. fdr.team r = t \<and> g \<le> gameweek r \<and> gameweek r \<le> g + 4) df"

section \<open>Example tables\<close>

definition fdr_row :: "int \<Rightarrow> int \<Rightarrow> string \<Rightarrow> string \<Rightarrow> string \<Rightarrow> int \<Rightarrow> fdr" where
  "fdr_row i gw t opp ha d =
     \<lparr>fixture_id = i, gameweek = gw, team = t, opponent = opp, home_away = ha,
      difficulty_rating = d, kickoff_time = '''', finished = False\<rparr>"

text \<open>
  The scenario of the specification: A plays B in gameweek 1 (difficulty 2 for A, 4 for
  B) and C in gameweek 2 (difficulty 5 for A, 1 for C).
\<close>

definition example_df :: "fdr list" where
  "example_df =
     [fdr_row 1 1 ''A'' ''B'' ''Home'' 2, fdr_row 1 1 ''B'' ''A'' ''Away'' 4,
      fdr_row 2 2 ''A'' ''C'' ''Home'' 5, fdr_row 2 2 ''C'' ''A'' ''Away'' 1]"

text \<open>A double gameweek: A plays both B and C in gameweek 1.\<close>

definition double_gameweek_df :: "fdr list" where
  "double_gameweek_df =
     [fdr_row 1 1 ''A'' ''B'' ''Home'' 2, fdr_row 1 1 ''B'' ''A'' ''Away'' 4,
      fdr_row 2 1 ''A'' ''C'' ''Away'' 3, fdr_row 2 1 ''C'' ''A'' ''Home'' 3]"

text \<open>
  Six fixtures of A in gameweeks 1 to 5, out of gameweek order, and one in gameweek 7.
\<close>

definition crowded_df :: "fdr list" where
  "crowded_df =
     [fdr_row 1 3 ''A'' ''B'' ''Home'' 2, fdr_row 2 1 ''A'' ''C'' ''Away'' 3,
      fdr_row 3 5 ''A'' ''D'' ''Home'' 5, fdr_row 4 2 ''A'' ''E'' ''Away'' 1,
      fdr_row 5 4 ''A'' ''F'' ''Home'' 4, fdr_row 6 1 ''A'' ''G'' ''Home'' 2,
      fdr_row 7 7 ''A'' ''H'' ''Away'' 3]"

text \<open>
  A fixtures payload and a \<open>teams\<close> dictionary for the scenario of the specification,
  and the same payload with an away team id that the dictionary does not have.
\<close>

definition raw_fixture :: "int \<Rightarrow> int \<Rightarrow> int \<Rightarrow> int \<Rightarrow> int \<Rightarrow> int \<Rightarrow> fixture" where
  "raw_fixture i gw h a dh da =
     \<lparr>fx_id = i, event = gw, team_h = h, team_a = a, team_h_difficulty = dh,
      team_a_difficulty = da, kickoff_time = '''', finished = False\<rparr>"

definition example_teams :: "int \<rightharpoonup> string" where
  "example_teams = [1 \<mapsto> ''A'', 2 \<mapsto> ''B'', 3 \<mapsto> ''C'']"

definition example_fixtures :: "fixture list" where
  "example_fixtures = [raw_fixture 1 1 1 2 2 4, raw_fixture 2 2 1 3 5 1]"

definition unknown_team_fixtures :: "fixture list" where
  "unknown_team_fixtures = [raw_fixture 1 1 1 2 2 4, raw_fixture 2 2 1 9 5 1]"

section \<open>Facts about the building blocks\<close>

lemmas example_defs =
  fdr_row_def example_df_def double_gameweek_df_def crowded_df_def

lemmas analysis_defs =
  analyze_next_5_fixtures_fdr_def analyze_body_def team_analysis_def next_5_df_def
  team_data_def fixtures_def team_entry_def mean_def total_def

lemma sorts_by_sort_key: "sorts_by key (sort_key key)"
  by (simp add: sorts_by_def)

lemma set_unique: "set (unique xs) = set xs"
  by (induction xs rule: unique.induct) auto

lemma distinct_unique: "distinct (unique xs)"
  by (induction xs rule: unique.induct) (auto simp: set_unique)

lemma sorts_by_mset: "sorts_by key srt \<Longrightarrow> mset (srt xs) = mset xs"
  by (simp add: sorts_by_def)

lemma sorts_by_sorted: "sorts_by key srt \<Longrightarrow> sorted (map key (srt xs))"
  by (simp add: sorts_by_def)

lemma sorts_by_set: "sorts_by key srt \<Longrightarrow> set (srt xs) = set xs"
  using sorts_by_mset [of key srt xs] by (metis set_mset_mset)

lemma sorts_by_length: "sorts_by key srt \<Longrightarrow> length (srt xs) = length xs"
  using sorts_by_mset [of key srt xs] by (metis size_mset)

lemma sorts_by_Nil_iff: "sorts_by key srt \<Longrightarrow> srt xs = [] \<longleftrightarrow> xs = []"
  using sorts_by_length [of key srt xs] by auto

lemma concat_guarded:
  "\<forall>t \<in> set ts. P t \<Longrightarrow> concat (map (\<lambda>t. if P t then [f t] else []) ts) = map f ts"
  by (induction ts) auto

lemma team_data_nonempty:
  assumes "sorts_by gameweek sg" and "t \<in> set (map fdr.team n5)"
  shows "length (team_data sg n5 t) > 0"
proof -
  from assms(2) obtain r where "r \<in> set n5" "fdr.team r = t" by auto
  then have "filter (\<lambda>r. fdr.team r = t) n5 \<noteq> []"
    by (auto simp: filter_empty_conv)
  then show ?thesis
    using sorts_by_length [OF assms(1)] by (simp add: team_data_def)
qed

lemma team_analysis_map:
  assumes "sorts_by gameweek sg"
  shows "team_analysis sg n5 = map (\<lambda>t. team_entry t (fixtures sg n5 t)) (unique (map fdr.team n5))"
proof -
  have "\<forall>t \<in> set (unique (map fdr.team n5)). length (team_data sg n5 t) > 0"
    using team_data_nonempty [OF assms] by (simp only: set_unique) blast
  then show ?thesis
    unfolding team_analysis_def by (rule concat_guarded)
qed

lemma team_analysis_Nil_iff:
  assumes "sorts_by gameweek sg"
  shows "team_analysis sg n5 = [] \<longleftrightarrow> n5 = []"
  by (cases n5) (simp_all add: team_analysis_map [OF assms])

lemma team_of_team_entry: "analysis.team (team_entry t fs) = t"
  by (simp add: team_entry_def)

lemma teams_of_team_analysis:
  assumes "sorts_by gameweek sg"
  shows "map analysis.team (team_analysis sg n5) = unique (map fdr.team n5)"
  by (simp add: team_analysis_map [OF assms] o_def team_of_team_entry)

lemma analyze_Some:
  assumes "sorts_by gameweek sg" and "next_5_df df g \<noteq> []"
  shows "analyze_next_5_fixtures_fdr sg sa (Some df) g =
           Some (zip [1 ..< Suc (length (sa (team_analysis sg (next_5_df df g))))]
                     (sa (team_analysis sg (next_5_df df g))))"
  using assms
  by (simp add: analyze_next_5_fixtures_fdr_def analyze_body_def Let_def team_analysis_Nil_iff)

lemma analyze_None:
  assumes "sorts_by gameweek sg" and "next_5_df df g = []"
  shows "analyze_next_5_fixtures_fdr sg sa (Some df) g = None"
  using assms
  by (simp add: analyze_next_5_fixtures_fdr_def analyze_body_def Let_def team_analysis_Nil_iff)

lemma next_5_df_Nil_iff:
  "next_5_df df g = [] \<longleftrightarrow> (\<forall>r \<in> set df. \<not> (g \<le> gameweek r \<and> gameweek r \<le> g + 4))"
  by (auto simp: next_5_df_def Let_def filter_empty_conv)


lemma analyze_file_cases:
  assumes "sorts_by gameweek sg"
  shows "analyze_next_5_fixtures_fdr sg sa (Some df) g =
           (if next_5_df df g = [] then None
            else Some (zip [1 ..< Suc (length (sa (team_analysis sg (next_5_df df g))))]
                           (sa (team_analysis sg (next_5_df df g)))))"
  by (simp add: analyze_Some [OF assms] analyze_None [OF assms])

lemma analyze_rows:
  assumes sg: "sorts_by gameweek sg" and sa: "sorts_by average_fdr sa"
    and res: "analyze_next_5_fixtures_fdr sg sa (Some df) g = Some rows"
  shows "next_5_df df g \<noteq> []"
    and "map fst rows = [1 ..< Suc (length rows)]"
    and "map snd rows = sa (team_analysis sg (next_5_df df g))"
    and "rows \<noteq> []"
proof -
  let ?s = "sa (team_analysis sg (next_5_df df g))"
  show ne: "next_5_df df g \<noteq> []"
    using res by (auto simp: analyze_file_cases [OF sg] split: if_splits)
  then have rows: "rows = zip [1 ..< Suc (length ?s)] ?s"
    using res by (simp add: analyze_file_cases [OF sg])
  then have len: "length rows = length ?s" by (simp del: upt_Suc)
  show "map fst rows = [1 ..< Suc (length rows)]"
    unfolding len by (simp add: rows del: upt_Suc)
  show "map snd rows = ?s"
    by (simp add: rows del: upt_Suc)
  have "team_analysis sg (next_5_df df g) \<noteq> []"
    using ne by (simp add: team_analysis_Nil_iff [OF sg])
  then have "?s \<noteq> []"
    by (simp add: sorts_by_Nil_iff [OF sa])
  then show "rows \<noteq> []"
    using len by auto
qed

lemma analyze_row_built:
  assumes sg: "sorts_by gameweek sg" and sa: "sorts_by average_fdr sa"
    and res: "analyze_next_5_fixtures_fdr sg sa (Some df) g = Some rows"
    and mem: "(k, r) \<in> set rows"
  shows "analysis.team r \<in> set (map fdr.team (next_5_df df g))"
    and "r = team_entry (analysis.team r) (fixtures sg (next_5_df df g) (analysis.team r))"
proof -
  let ?n5 = "next_5_df df g"
  from mem have "r \<in> set (map snd rows)" by force
  then have "r \<in> set (team_analysis sg ?n5)"
    by (simp add: analyze_rows(3) [OF sg sa res] sorts_by_set [OF sa])
  then obtain t where t: "t \<in> set (map fdr.team ?n5)" and r: "r = team_entry t (fixtures sg ?n5 t)"
    by (auto simp: team_analysis_map [OF sg] set_unique)
  from r have "analysis.team r = t" by (simp add: team_of_team_entry)
  with t r show "analysis.team r \<in> set (map fdr.team ?n5)"
    and "r = team_entry (analysis.team r) (fixtures sg ?n5 (analysis.team r))"
    by simp_all
qed

lemma fixtures_nonempty:
  assumes "sorts_by gameweek sg" and "t \<in> set (map fdr.team n5)"
  shows "fixtures sg n5 t \<noteq> []"
  using team_data_nonempty [OF assms] by (simp add: fixtures_def)

lemma analyze_teams:
  assumes sg: "sorts_by gameweek sg" and sa: "sorts_by average_fdr sa"
    and res: "analyze_next_5_fixtures_fdr sg sa (Some df) g = Some rows"
  shows "mset (map (analysis.team \<circ> snd) rows) = mset (unique (map fdr.team (next_5_df df g)))"
proof -
  have "map (analysis.team \<circ> snd) rows = map analysis.team (map snd rows)" by simp
  also have "mset \<dots> = image_mset analysis.team (mset (team_analysis sg (next_5_df df g)))"
    by (simp add: analyze_rows(3) [OF sg sa res] sorts_by_mset [OF sa])
  also have "\<dots> = mset (map analysis.team (team_analysis sg (next_5_df df g)))" by simp
  finally show ?thesis by (simp only: teams_of_team_analysis [OF sg])
qed


section \<open>The claims\<close>

text \<open>
  C1. Whenever the analysis returns a ranking, its rows are in non-decreasing order of
  \<open>average_fdr\<close> and the \<open>fdr_rank\<close> of each row is its 1-based position; and it
  does return one as soon as some row of the table has its gameweek in the window.
  This holds for every sorting function \<open>sort_values\<close> may be.
\<close>

theorem ranking_sorted_and_ranked:
  assumes sg: "sorts_by gameweek sg" and sa: "sorts_by average_fdr sa"
  shows "((\<exists>r \<in> set df. g \<le> gameweek r \<and> gameweek r \<le> g + 4)
            \<longrightarrow> analyze_next_5_fixtures_fdr sg sa (Some df) g \<noteq> None)
       \<and> (\<forall>rows. analyze_next_5_fixtures_fdr sg sa (Some df) g = Some rows
            \<longrightarrow> sorted (map (\<lambda>(k, r). average_fdr r) rows)
              \<and> (\<forall>i < length rows. fst (rows ! i) = i + 1))"
proof (intro conjI allI impI)
  assume "\<exists>r \<in> set df. g \<le> gameweek r \<and> gameweek r \<le> g + 4"
  then have "next_5_df df g \<noteq> []" by (simp add: next_5_df_Nil_iff)
  then show "analyze_next_5_fixtures_fdr sg sa (Some df) g \<noteq> None"
    by (simp add: analyze_Some [OF sg])
next
  fix rows assume res: "analyze_next_5_fixtures_fdr sg sa (Some df) g = Some rows"
  have "map (\<lambda>(k, r). average_fdr r) rows = map average_fdr (map snd rows)"
    by (simp add: case_prod_unfold)
  then show "sorted (map (\<lambda>(k, r). average_fdr r) rows)"
    by (simp only: analyze_rows(3) [OF sg sa res] sorts_by_sorted [OF sa])
next
  fix rows i assume res: "analyze_next_5_fixtures_fdr sg sa (Some df) g = Some rows"
    and i: "i < length rows"
  have "fst (rows ! i) = map fst rows ! i" using i by simp
  also have "\<dots> = [1 ..< Suc (length rows)] ! i"
    by (simp only: analyze_rows(2) [OF sg sa res, symmetric])
  also have "\<dots> = i + 1" using i by (simp del: upt_Suc)
  finally show "fst (rows ! i) = i + 1" .
qed

theorem ranking_sorted_and_ranked_witness:
  "analyze_next_5_fixtures_fdr (sort_key gameweek) (sort_key average_fdr) (Some example_df) 1 \<noteq> None
   \<and> map (\<lambda>(k, r). (k, analysis.team r, average_fdr r))
        (the (analyze_next_5_fixtures_fdr (sort_key gameweek) (sort_key average_fdr) (Some example_df) 1))
      = [(1, ''C'', 1), (2, ''A'', 7 / 2), (3, ''B'', 4)]
   \<and> sorted (map (\<lambda>(k, r). average_fdr r)
        (the (analyze_next_5_fixtures_fdr (sort_key gameweek) (sort_key average_fdr) (Some example_df) 1)))"
  using ranking_sorted_and_ranked [OF sorts_by_sort_key sorts_by_sort_key, of example_df 1]
  by (simp add: analysis_defs example_defs)

text \<open>
  C10. Every row of a returned ranking is the entry built from a non-empty
  \<open>fixtures\<close> window of its club, so \<open>fixtures_analyzed\<close> is at least 1 and the mean
  is never taken of an empty window; and no club has two rows.
\<close>

theorem every_row_has_a_fixture:
  assumes sg: "sorts_by gameweek sg" and sa: "sorts_by average_fdr sa"
    and res: "analyze_next_5_fixtures_fdr sg sa (Some df) g = Some rows"
  shows "(\<forall>(k, r) \<in> set rows.
            fixtures sg (next_5_df df g) (analysis.team r) \<noteq> []
          \<and> r = team_entry (analysis.team r) (fixtures sg (next_5_df df g) (analysis.team r))
          \<and> fixtures_analyzed r \<ge> 1)
       \<and> distinct (map (\<lambda>(k, r). analysis.team r) rows)"
proof (intro conjI ballI)
  fix x assume x: "x \<in> set rows"
  obtain k r where kr: "x = (k, r)" by (cases x)
  let ?w = "fixtures sg (next_5_df df g) (analysis.team r)"
  from x kr have mem: "(k, r) \<in> set rows" by simp
  have ne: "?w \<noteq> []"
    using analyze_row_built(1) [OF sg sa res mem] by (rule fixtures_nonempty [OF sg])
  have built: "r = team_entry (analysis.team r) ?w"
    by (rule analyze_row_built(2) [OF sg sa res mem])
  have "fixtures_analyzed r = length ?w"
    by (subst built) (simp add: team_entry_def)
  with ne have "fixtures_analyzed r \<ge> 1" by (simp add: Suc_le_eq)
  with ne built show "case x of (k, r) \<Rightarrow>
            fixtures sg (next_5_df df g) (analysis.team r) \<noteq> []
          \<and> r = team_entry (analysis.team r) (fixtures sg (next_5_df df g) (analysis.team r))
          \<and> fixtures_analyzed r \<ge> 1"
    by (simp add: kr)
next
  have eq: "map (\<lambda>(k, r). analysis.team r) rows = map (analysis.team \<circ> snd) rows"
    by (simp add: case_prod_unfold o_def)
  have "distinct (unique (map fdr.team (next_5_df df g)))" by (rule distinct_unique)
  then have "distinct (map (analysis.team \<circ> snd) rows)"
    using analyze_teams [OF sg sa res] by (metis mset_eq_imp_distinct_iff)
  then show "distinct (map (\<lambda>(k, r). analysis.team r) rows)" by (simp only: eq)
qed

theorem every_row_has_a_fixture_witness:
  "analyze_next_5_fixtures_fdr (sort_key gameweek) (sort_key average_fdr) (Some example_df) 1
     = Some (zip [1, 2, 3]
         [team_entry ''C'' [fdr_row 2 2 ''C'' ''A'' ''Away'' 1],
          team_entry ''A'' [fdr_row 1 1 ''A'' ''B'' ''Home'' 2, fdr_row 2 2 ''A'' ''C'' ''Home'' 5],
          team_entry ''B'' [fdr_row 1 1 ''B'' ''A'' ''Away'' 4]])
   \<and> map fixtures_analyzed
        [team_entry ''C'' [fdr_row 2 2 ''C'' ''A'' ''Away'' 1],
         team_entry ''A'' [fdr_row 1 1 ''A'' ''B'' ''Home'' 2, fdr_row 2 2 ''A'' ''C'' ''Home'' 5],
         team_entry ''B'' [fdr_row 1 1 ''B'' ''A'' ''Away'' 4]] = [1, 2, 1]
   \<and> distinct [''C'', ''A'', ''B'']"
proof -
  have res: "analyze_next_5_fixtures_fdr (sort_key gameweek) (sort_key average_fdr) (Some example_df) 1
     = Some (zip [1, 2, 3]
         [team_entry ''C'' [fdr_row 2 2 ''C'' ''A'' ''Away'' 1],
          team_entry ''A'' [fdr_row 1 1 ''A'' ''B'' ''Home'' 2, fdr_row 2 2 ''A'' ''C'' ''Home'' 5],
          team_entry ''B'' [fdr_row 1 1 ''B'' ''A'' ''Away'' 4]])"
    by (simp add: analysis_defs example_defs)
  show ?thesis
    using every_row_has_a_fixture [OF sorts_by_sort_key sorts_by_sort_key res]
    by (simp add: res team_entry_def)
qed

text \<open>
  C3. In every row of a returned ranking, \<open>total_fdr\<close> is the sum of the difficulty
  ratings of the club's \<open>fixtures\<close> window, \<open>fixtures_analyzed\<close> is the (positive)
  length of that window, and \<open>average_fdr\<close> is their quotient; hence the total is the
  average times the number of fixtures. The mean is an exact rational here; the
  rounding of the source's floating-point division is not modelled.
\<close>

theorem total_is_sum_and_average_is_mean:
  assumes sg: "sorts_by gameweek sg" and sa: "sorts_by average_fdr sa"
    and res: "analyze_next_5_fixtures_fdr sg sa (Some df) g = Some rows"
    and mem: "(k, r) \<in> set rows"
  shows "total_fdr r = sum_list (map difficulty_rating (fixtures sg (next_5_df df g) (analysis.team r)))
       \<and> fixtures_analyzed r = length (fixtures sg (next_5_df df g) (analysis.team r))
       \<and> fixtures_analyzed r > 0
       \<and> average_fdr r = of_int (total_fdr r) / of_nat (fixtures_analyzed r)
       \<and> of_int (total_fdr r) = average_fdr r * of_nat (fixtures_analyzed r)"
proof -
  let ?w = "fixtures sg (next_5_df df g) (analysis.team r)"
  have ne: "?w \<noteq> []"
    using analyze_row_built(1) [OF sg sa res mem] by (rule fixtures_nonempty [OF sg])
  have built: "r = team_entry (analysis.team r) ?w"
    by (rule analyze_row_built(2) [OF sg sa res mem])
  have tot: "total_fdr r = sum_list (map difficulty_rating ?w)"
    by (subst built) (simp add: team_entry_def total_def)
  have len: "fixtures_analyzed r = length ?w"
    by (subst built) (simp add: team_entry_def)
  have avg: "average_fdr r = of_int (total_fdr r) / of_nat (fixtures_analyzed r)"
    unfolding tot len by (subst built) (simp add: team_entry_def mean_def total_def)
  from ne len have pos: "fixtures_analyzed r > 0" by simp
  then have "of_int (total_fdr r) = average_fdr r * of_nat (fixtures_analyzed r)"
    by (simp add: avg)
  with tot len pos avg show ?thesis by blast
qed

theorem total_is_sum_and_average_is_mean_witness:
  "analyze_next_5_fixtures_fdr (sort_key gameweek) (sort_key average_fdr) (Some example_df) 1
     = Some (zip [1, 2, 3]
         [team_entry ''C'' [fdr_row 2 2 ''C'' ''A'' ''Away'' 1],
          team_entry ''A'' [fdr_row 1 1 ''A'' ''B'' ''Home'' 2, fdr_row 2 2 ''A'' ''C'' ''Home'' 5],
          team_entry ''B'' [fdr_row 1 1 ''B'' ''A'' ''Away'' 4]])
   \<and> total_fdr (team_entry ''A'' [fdr_row 1 1 ''A'' ''B'' ''Home'' 2, fdr_row 2 2 ''A'' ''C'' ''Home'' 5]) = 7
   \<and> fixtures_analyzed (team_entry ''A'' [fdr_row 1 1 ''A'' ''B'' ''Home'' 2, fdr_row 2 2 ''A'' ''C'' ''Home'' 5]) = 2
   \<and> average_fdr (team_entry ''A'' [fdr_row 1 1 ''A'' ''B'' ''Home'' 2, fdr_row 2 2 ''A'' ''C'' ''Home'' 5]) = 7 / 2
   \<and> (7 :: rat) = 7 / 2 * 2"
proof -
  let ?a = "team_entry ''A'' [fdr_row 1 1 ''A'' ''B'' ''Home'' 2, fdr_row 2 2 ''A'' ''C'' ''Home'' 5]"
  have res: "analyze_next_5_fixtures_fdr (sort_key gameweek) (sort_key average_fdr) (Some example_df) 1
     = Some (zip [1, 2, 3]
         [team_entry ''C'' [fdr_row 2 2 ''C'' ''A'' ''Away'' 1], ?a,
          team_entry ''B'' [fdr_row 1 1 ''B'' ''A'' ''Away'' 4]])"
    by (simp add: analysis_defs example_defs)
  have mem: "(2, ?a) \<in> set (zip [1, 2, 3]
         [team_entry ''C'' [fdr_row 2 2 ''C'' ''A'' ''Away'' 1], ?a,
          team_entry ''B'' [fdr_row 1 1 ''B'' ''A'' ''Away'' 4]])"
    by simp
  show ?thesis
    using total_is_sum_and_average_is_mean [OF sorts_by_sort_key sorts_by_sort_key res mem]
    by (simp add: res analysis_defs example_defs)
qed

text \<open>
  C2, as amended. The loop runs over the clubs of the filtered table only: a club has a
  row in the ranking exactly when at least one of its rows has its gameweek in
  \<open>[g, g + 4]\<close>. A club with no fixture in the window gets no row at all.
\<close>

theorem rows_only_for_teams_in_window:
  assumes sg: "sorts_by gameweek sg" and sa: "sorts_by average_fdr sa"
    and res: "analyze_next_5_fixtures_fdr sg sa (Some df) g = Some rows"
  shows "t \<in> set (map (\<lambda>(k, r). analysis.team r) rows)
           \<longleftrightarrow> (\<exists>e \<in> set df. fdr.team e = t \<and> g \<le> gameweek e \<and> gameweek e \<le> g + 4)"
proof -
  have eq: "map (\<lambda>(k, r). analysis.team r) rows = map (analysis.team \<circ> snd) rows"
    by (simp add: case_prod_unfold o_def)
  have "set (map (analysis.team \<circ> snd) rows) = set (unique (map fdr.team (next_5_df df g)))"
    using analyze_teams [OF sg sa res] by (rule mset_eq_setD)
  then have "t \<in> set (map (\<lambda>(k, r). analysis.team r) rows)
               \<longleftrightarrow> t \<in> set (map fdr.team (next_5_df df g))"
    by (simp only: eq set_unique)
  also have "\<dots> \<longleftrightarrow> (\<exists>e \<in> set df. fdr.team e = t \<and> g \<le> gameweek e \<and> gameweek e \<le> g + 4)"
    by (auto simp: next_5_df_def Let_def)
  finally show ?thesis .
qed

theorem rows_only_for_teams_in_window_witness:
  "analyze_next_5_fixtures_fdr (sort_key gameweek) (sort_key average_fdr) (Some example_df) 2
     = Some (zip [1, 2]
         [team_entry ''C'' [fdr_row 2 2 ''C'' ''A'' ''Away'' 1],
          team_entry ''A'' [fdr_row 2 2 ''A'' ''C'' ''Home'' 5]])
   \<and> ''B'' \<notin> set [''C'', ''A'']
   \<and> filter (\<lambda>e. fdr.team e = ''B'' \<and> 2 \<le> gameweek e \<and> gameweek e \<le> 2 + 4) example_df = []
   \<and> ''A'' \<in> set [''C'', ''A'']
   \<and> filter (\<lambda>e. fdr.team e = ''A'' \<and> 2 \<le> gameweek e \<and> gameweek e \<le> 2 + 4) example_df
       = [fdr_row 2 2 ''A'' ''C'' ''Home'' 5]"
proof -
  have res: "analyze_next_5_fixtures_fdr (sort_key gameweek) (sort_key average_fdr) (Some example_df) 2
     = Some (zip [1, 2]
         [team_entry ''C'' [fdr_row 2 2 ''C'' ''A'' ''Away'' 1],
          team_entry ''A'' [fdr_row 2 2 ''A'' ''C'' ''Home'' 5]])"
    by (simp add: analysis_defs example_defs)
  show ?thesis
    using rows_only_for_teams_in_window [OF sorts_by_sort_key sorts_by_sort_key res, of "''B''"]
      rows_only_for_teams_in_window [OF sorts_by_sort_key sorts_by_sort_key res, of "''A''"]
    by (simp add: analysis_defs example_defs)
qed

text \<open>
  C2 as stated fails: in the scenario table with start gameweek 2, club B is in the
  table and has no fixture in gameweeks 2 to 6, and the ranking holds rows for C and A
  only. (Every list sorted here has one element, so the result does not depend on the
  sorting function.)
\<close>

theorem no_blank_row_counterexample:
  "''B'' \<in> set (map fdr.team example_df)
   \<and> filter (\<lambda>e. fdr.team e = ''B'' \<and> 2 \<le> gameweek e \<and> gameweek e \<le> 2 + 4) example_df = []
   \<and> map_option (map (\<lambda>(k, r). (k, analysis.team r, fixtures_analyzed r)))
       (analyze_next_5_fixtures_fdr (sort_key gameweek) (sort_key average_fdr) (Some example_df) 2)
     = Some [(1, ''C'', 1), (2, ''A'', 1)]"
  by (simp add: analysis_defs example_defs)

lemma analyze_not_empty_ranking:
  assumes sa: "sorts_by average_fdr sa"
  shows "analyze_next_5_fixtures_fdr sg sa file g \<noteq> Some []"
proof (cases "file")
  case None
  then show ?thesis by (simp add: analyze_next_5_fixtures_fdr_def analyze_body_def)
next
  case (Some df)
  let ?ta = "team_analysis sg (next_5_df df g)"
  show ?thesis
  proof (cases "?ta = []")
    case True
    with Some show ?thesis by (simp add: analyze_next_5_fixtures_fdr_def analyze_body_def)
  next
    case False
    then have "length (sa ?ta) > 0" by (simp add: sorts_by_length [OF sa])
    then have "zip [1 ..< Suc (length (sa ?ta))] (sa ?ta) \<noteq> []"
      by (cases "sa ?ta") (simp_all del: upt_Suc add: upt_conv_Cons)
    with Some False show ?thesis
      by (simp add: analyze_next_5_fixtures_fdr_def analyze_body_def Let_def del: upt_Suc)
  qed
qed

text \<open>
  C9, as amended. A missing file and an empty table both make the function return
  \<open>None\<close>, the value it returns for every failure, and it never returns an empty
  ranking.
\<close>

theorem failure_is_none_never_empty_ranking:
  assumes "sorts_by average_fdr sa"
  shows "analyze_next_5_fixtures_fdr sg sa None g = None
       \<and> analyze_next_5_fixtures_fdr sg sa (Some []) g = None
       \<and> analyze_next_5_fixtures_fdr sg sa file g \<noteq> Some []"
proof -
  have "analyze_next_5_fixtures_fdr sg sa None g = None"
    by (simp add: analyze_next_5_fixtures_fdr_def analyze_body_def)
  moreover have "analyze_next_5_fixtures_fdr sg sa (Some []) g = None"
    by (simp add: analyze_next_5_fixtures_fdr_def analyze_body_def team_analysis_def next_5_df_def)
  ultimately show ?thesis
    using analyze_not_empty_ranking [OF assms] by simp
qed

theorem failure_is_none_never_empty_ranking_witness:
  "analyze_next_5_fixtures_fdr (sort_key gameweek) (sort_key average_fdr) None 1 = None
   \<and> analyze_next_5_fixtures_fdr (sort_key gameweek) (sort_key average_fdr) (Some []) 1 = None
   \<and> analyze_next_5_fixtures_fdr (sort_key gameweek) (sort_key average_fdr) (Some example_df) 3 = None
   \<and> analyze_next_5_fixtures_fdr (sort_key gameweek) (sort_key average_fdr) (Some example_df) 3 \<noteq> Some []"
  using failure_is_none_never_empty_ranking [OF sorts_by_sort_key, of "sort_key gameweek" 1 "Some example_df"]
    failure_is_none_never_empty_ranking [OF sorts_by_sort_key, of "sort_key gameweek" 3 "Some example_df"]
  by (simp add: analysis_defs example_defs)

text \<open>
  C9 as stated fails: no not-found condition reaches the caller. For a missing file the
  body returns \<open>None\<close> without raising; for an empty table it raises \<open>KeyError\<close>
  (sorting a frame without columns), which the handler turns into the same \<open>None\<close>.
\<close>

theorem untyped_failure_counterexample:
  "analyze_body (sort_key gameweek) (sort_key average_fdr) None 1 = Inr None
   \<and> analyze_next_5_fixtures_fdr (sort_key gameweek) (sort_key average_fdr) None 1 = None
   \<and> analyze_body (sort_key gameweek) (sort_key average_fdr) (Some []) 1 = Inl KeyError
   \<and> analyze_next_5_fixtures_fdr (sort_key gameweek) (sort_key average_fdr) (Some []) 1 = None"
  by (simp add: analysis_defs)

text \<open>
  C8, as amended. The start gameweek is not validated. For a non-positive \<open>g\<close> the
  analysis returns \<open>None\<close> exactly when no row of the table has its gameweek in
  \<open>[g, g + 4]\<close>, and a ranking (never an empty one) otherwise, as for any other \<open>g\<close>.
\<close>

theorem nonpositive_start_not_checked:
  assumes sg: "sorts_by gameweek sg" and sa: "sorts_by average_fdr sa" and g: "g \<le> 0"
  shows "(analyze_next_5_fixtures_fdr sg sa (Some df) g = None
            \<longleftrightarrow> (\<forall>r \<in> set df. \<not> (g \<le> gameweek r \<and> gameweek r \<le> g + 4)))
       \<and> analyze_next_5_fixtures_fdr sg sa (Some df) g \<noteq> Some []"
proof
  show "analyze_next_5_fixtures_fdr sg sa (Some df) g = None
            \<longleftrightarrow> (\<forall>r \<in> set df. \<not> (g \<le> gameweek r \<and> gameweek r \<le> g + 4))"
    by (simp only: analyze_file_cases [OF sg] next_5_df_Nil_iff [symmetric]) simp
  show "analyze_next_5_fixtures_fdr sg sa (Some df) g \<noteq> Some []"
    by (rule analyze_not_empty_ranking [OF sa])
qed

theorem nonpositive_start_not_checked_witness:
  "(0 :: int) \<le> 0
   \<and> filter (\<lambda>r. 0 \<le> gameweek r \<and> gameweek r \<le> 0 + 4) example_df = example_df
   \<and> analyze_next_5_fixtures_fdr (sort_key gameweek) (sort_key average_fdr) (Some example_df) 0 \<noteq> None
   \<and> (- 4 :: int) \<le> 0
   \<and> filter (\<lambda>r. - 4 \<le> gameweek r \<and> gameweek r \<le> - 4 + 4) example_df = []
   \<and> analyze_next_5_fixtures_fdr (sort_key gameweek) (sort_key average_fdr) (Some example_df) (- 4) = None"
  using nonpositive_start_not_checked [OF sorts_by_sort_key sorts_by_sort_key, of 0 example_df]
    nonpositive_start_not_checked [OF sorts_by_sort_key sorts_by_sort_key, of "- 4" example_df]
  by (simp add: analysis_defs example_defs)

text \<open>
  C8 as stated fails: with start gameweek 0 the scenario table is ranked over gameweeks
  0 to 4, and with start gameweek -3 over gameweeks -3 to 1. (No two rows sorted here
  have equal keys, so the result does not depend on the sorting function.)
\<close>

theorem nonpositive_start_counterexample:
  "map_option (map (\<lambda>(k, r). (k, analysis.team r, average_fdr r)))
     (analyze_next_5_fixtures_fdr (sort_key gameweek) (sort_key average_fdr) (Some example_df) 0)
     = Some [(1, ''C'', 1), (2, ''A'', 7 / 2), (3, ''B'', 4)]
   \<and> map_option (map (\<lambda>(k, r). (k, analysis.team r, average_fdr r)))
     (analyze_next_5_fixtures_fdr (sort_key gameweek) (sort_key average_fdr) (Some example_df) (- 3))
     = Some [(1, ''A'', 2), (2, ''B'', 4)]"
  by (simp add: analysis_defs example_defs)

lemma team_rows_in_range:
  "filter (\<lambda>r. fdr.team r = t) (next_5_df df g) = entries_in_range df g t"
  by (induction df) (auto simp: next_5_df_def entries_in_range_def Let_def)

lemma fixtures_take_sorted:
  "fixtures sg (next_5_df df g) t = take 5 (sg (entries_in_range df g t))"
  by (simp add: fixtures_def team_data_def team_rows_in_range)

lemma sorted_take_drop_le:
  assumes "sorted (map key xs)" and "y \<in> set (take n xs)" and "x \<in> set (drop n xs)"
  shows "key y \<le> key x"
proof -
  have "sorted (map key (take n xs) @ map key (drop n xs))"
    using assms(1) by (simp flip: map_append)
  then have "\<forall>a \<in> set (map key (take n xs)). \<forall>b \<in> set (map key (drop n xs)). a \<le> b"
    by (simp add: sorted_append)
  with assms(2,3) show ?thesis by auto
qed

lemma sorted_map_take:
  "sorted (map key xs) \<Longrightarrow> sorted (map key (take n xs))"
  by (metis sorted_wrt_take take_map)

text \<open>
  C4. The \<open>fixtures\<close> window of a team is the first five rows of the sorted list of
  that team's entries with gameweek in \<open>[g, g + 4]\<close>: it is in non-decreasing gameweek
  order, it is a sub-multiset of those entries of length \<open>min 5\<close> of their number, and
  every entry left out has a gameweek at least as large as every entry kept (the rows
  are sorted before they are truncated).
\<close>

theorem window_is_sorted_then_truncated:
  assumes sg: "sorts_by gameweek sg"
  shows "fixtures sg (next_5_df df g) t = take 5 (sg (entries_in_range df g t))
       \<and> sorted (map gameweek (fixtures sg (next_5_df df g) t))
       \<and> mset (fixtures sg (next_5_df df g) t) \<subseteq># mset (entries_in_range df g t)
       \<and> length (fixtures sg (next_5_df df g) t) = min 5 (length (entries_in_range df g t))
       \<and> (\<forall>x \<in># mset (entries_in_range df g t) - mset (fixtures sg (next_5_df df g) t).
            \<forall>y \<in> set (fixtures sg (next_5_df df g) t). gameweek y \<le> gameweek x)"
proof -
  let ?E = "entries_in_range df g t"
  let ?S = "sg ?E"
  let ?W = "fixtures sg (next_5_df df g) t"
  have W: "?W = take 5 ?S" by (rule fixtures_take_sorted)
  have srt: "sorted (map gameweek ?S)" by (rule sorts_by_sorted [OF sg])
  have "mset ?S = mset (take 5 ?S) + mset (drop 5 ?S)"
    by (simp flip: mset_append)
  then have split: "mset ?E = mset (take 5 ?S) + mset (drop 5 ?S)"
    by (simp only: sorts_by_mset [OF sg])
  have "sorted (map gameweek ?W)"
    unfolding W using srt by (rule sorted_map_take)
  moreover have "mset ?W \<subseteq># mset ?E"
    unfolding W split by simp
  moreover have "length ?W = min 5 (length ?E)"
    unfolding W by (simp add: sorts_by_length [OF sg] min.commute)
  moreover have "\<forall>x \<in># mset ?E - mset ?W. \<forall>y \<in> set ?W. gameweek y \<le> gameweek x"
  proof (intro ballI)
    fix x y assume "x \<in># mset ?E - mset ?W" and y: "y \<in> set ?W"
    then have "x \<in> set (drop 5 ?S)" unfolding W split by simp
    with srt y show "gameweek y \<le> gameweek x"
      unfolding W by (metis sorted_take_drop_le)
  qed
  ultimately show ?thesis using W by blast
qed

theorem window_is_sorted_then_truncated_witness:
  "map gameweek (entries_in_range crowded_df 1 ''A'') = [3, 1, 5, 2, 4, 1]
   \<and> map (\<lambda>r. (gameweek r, opponent r)) (fixtures (sort_key gameweek) (next_5_df crowded_df 1) ''A'')
       = [(1, ''C''), (1, ''G''), (2, ''E''), (3, ''B''), (4, ''F'')]
   \<and> fixtures (sort_key gameweek) (next_5_df crowded_df 1) ''A''
       = take 5 (sort_key gameweek (entries_in_range crowded_df 1 ''A''))
   \<and> sorted [1, 1, 2, 3, 4 :: int]
   \<and> length (fixtures (sort_key gameweek) (next_5_df crowded_df 1) ''A'') = min 5 6
   \<and> mset (entries_in_range crowded_df 1 ''A'')
        - mset (fixtures (sort_key gameweek) (next_5_df crowded_df 1) ''A'')
       = {#fdr_row 3 5 ''A'' ''D'' ''Home'' 5#}"
  using window_is_sorted_then_truncated [OF sorts_by_sort_key, of crowded_df 1 "''A''"]
  by (simp add: analysis_defs example_defs entries_in_range_def)

text \<open>
  C5, as amended. A window has at most five entries and its gameweeks are
  non-decreasing; they are strictly increasing when the team's entries in range have
  pairwise distinct gameweeks.
\<close>

theorem window_gameweeks_nondecreasing:
  assumes sg: "sorts_by gameweek sg"
  shows "length (fixtures sg (next_5_df df g) t) \<le> 5
       \<and> sorted (map gameweek (fixtures sg (next_5_df df g) t))
       \<and> (distinct (map gameweek (entries_in_range df g t))
            \<longrightarrow> sorted_wrt (<) (map gameweek (fixtures sg (next_5_df df g) t)))"
proof -
  let ?E = "entries_in_range df g t"
  let ?S = "sg ?E"
  let ?W = "fixtures sg (next_5_df df g) t"
  have W: "?W = take 5 ?S" by (rule fixtures_take_sorted)
  have len: "length ?W \<le> 5" unfolding W by simp
  have srt: "sorted (map gameweek ?W)"
    unfolding W using sorts_by_sorted [OF sg] by (rule sorted_map_take)
  have "sorted_wrt (<) (map gameweek ?W)" if d: "distinct (map gameweek ?E)"
  proof -
    have "mset (map gameweek ?S) = mset (map gameweek ?E)"
      by (simp add: sorts_by_mset [OF sg])
    with d have "distinct (map gameweek ?S)"
      by (metis mset_eq_imp_distinct_iff)
    then have "distinct (take 5 (map gameweek ?S))" by (rule distinct_take)
    then have "distinct (map gameweek ?W)" unfolding W by (simp only: take_map)
    with srt show ?thesis by (simp only: strict_sorted_iff)
  qed
  with len srt show ?thesis by blast
qed

theorem window_gameweeks_nondecreasing_witness:
  "map gameweek (fixtures (sort_key gameweek) (next_5_df example_df 1) ''A'') = [1, 2]
   \<and> distinct (map gameweek (entries_in_range example_df 1 ''A''))
   \<and> sorted_wrt (<) [1, 2 :: int]
   \<and> map gameweek (fixtures (sort_key gameweek) (next_5_df double_gameweek_df 1) ''A'') = [1, 1]
   \<and> \<not> distinct (map gameweek (entries_in_range double_gameweek_df 1 ''A''))
   \<and> sorted [1, 1 :: int]"
  using window_gameweeks_nondecreasing [OF sorts_by_sort_key, of example_df 1 "''A''"]
    window_gameweeks_nondecreasing [OF sorts_by_sort_key, of double_gameweek_df 1 "''A''"]
  by (simp add: analysis_defs example_defs entries_in_range_def)

text \<open>
  C5 as stated fails: when a team plays twice in one gameweek, both rows are in its
  window, and the gameweeks of the window are not strictly increasing. (Both rows have
  the same gameweek, so this holds for every sorting function.)
\<close>

theorem double_gameweek_counterexample:
  "map gameweek (fixtures (sort_key gameweek) (next_5_df double_gameweek_df 1) ''A'') = [1, 1]
   \<and> \<not> sorted_wrt (<) (map gameweek (fixtures (sort_key gameweek) (next_5_df double_gameweek_df 1) ''A''))"
  by (simp add: analysis_defs example_defs)

lemmas flatten_defs =
  get_fpl_fdr_def lookup_team_def home_entry_def away_entry_def raw_fixture_def
  example_teams_def example_fixtures_def unknown_team_fixtures_def

lemma extract_fdr_known:
  assumes "\<forall>fx \<in> set fixtures_data. team_h fx \<in> dom teams \<and> team_a fx \<in> dom teams"
  shows "extract_fdr teams fdr_data fixtures_data =
           Inr (fdr_data @ concat (map (\<lambda>fx.
                  [home_entry (the (teams (team_h fx))) (the (teams (team_a fx))) fx,
                   away_entry (the (teams (team_h fx))) (the (teams (team_a fx))) fx])
                fixtures_data))"
  using assms
proof (induction fixtures_data arbitrary: fdr_data)
  case Nil
  then show ?case by simp
next
  case (Cons fx rest)
  from Cons.prems obtain h a where h: "teams (team_h fx) = Some h" and a: "teams (team_a fx) = Some a"
    by auto
  from Cons.prems have "\<forall>fx \<in> set rest. team_h fx \<in> dom teams \<and> team_a fx \<in> dom teams"
    by simp
  from Cons.IH [OF this] show ?case
    by (simp add: lookup_team_def h a)
qed

lemma extract_fdr_unknown:
  assumes "\<exists>fx \<in> set fixtures_data. team_h fx \<notin> dom teams \<or> team_a fx \<notin> dom teams"
  shows "extract_fdr teams fdr_data fixtures_data = Inl KeyError"
  using assms
proof (induction fixtures_data arbitrary: fdr_data)
  case Nil
  then show ?case by simp
next
  case (Cons fx rest)
  show ?case
  proof (cases "team_h fx \<in> dom teams \<and> team_a fx \<in> dom teams")
    case True
    with Cons.prems have "\<exists>fx \<in> set rest. team_h fx \<notin> dom teams \<or> team_a fx \<notin> dom teams"
      by auto
    from Cons.IH [OF this] True show ?thesis
      by (auto simp: lookup_team_def)
  next
    case False
    then show ?thesis
      by (auto simp: lookup_team_def domIff split: option.splits)
  qed
qed

text \<open>
  C7, as amended. When the two team ids of every fixture of the payload are keys of the
  \<open>teams\<close> dictionary, flattening returns the table that holds, for each fixture in
  payload order, exactly two rows: the home row and then the away row, with team and
  opponent swapped, venues \<open>Home\<close> and \<open>Away\<close>, and each row's difficulty read from
  the payload's field for that side; so the table has twice as many rows as the payload
  has fixtures. When some fixture of the payload has a team id that is not a key, the
  lookup raises \<open>KeyError\<close> and flattening returns \<open>None\<close>: no row of any fixture.
\<close>

theorem flatten_known_teams:
  "((\<forall>fx \<in> set fixtures_data. team_h fx \<in> dom teams \<and> team_a fx \<in> dom teams) \<longrightarrow>
      get_fpl_fdr teams fixtures_data =
        Some (concat (map (\<lambda>fx.
          [\<lparr>fixture_id = fx_id fx, gameweek = event fx,
            team = the (teams (team_h fx)), opponent = the (teams (team_a fx)),
            home_away = ''Home'', difficulty_rating = team_h_difficulty fx,
            kickoff_time = fixture.kickoff_time fx, finished = fixture.finished fx\<rparr>,
           \<lparr>fixture_id = fx_id fx, gameweek = event fx,
            team = the (teams (team_a fx)), opponent = the (teams (team_h fx)),
            home_away = ''Away'', difficulty_rating = team_a_difficulty fx,
            kickoff_time = fixture.kickoff_time fx, finished = fixture.finished fx\<rparr>])
          fixtures_data))
      \<and> (\<forall>rows. get_fpl_fdr teams fixtures_data = Some rows \<longrightarrow>
            length rows = 2 * length fixtures_data))
   \<and> ((\<exists>fx \<in> set fixtures_data. team_h fx \<notin> dom teams \<or> team_a fx \<notin> dom teams) \<longrightarrow>
        get_fpl_fdr teams fixtures_data = None)"
proof (intro conjI impI)
  assume known: "\<forall>fx \<in> set fixtures_data. team_h fx \<in> dom teams \<and> team_a fx \<in> dom teams"
  from extract_fdr_known [OF known, of "[]"]
  show flat: "get_fpl_fdr teams fixtures_data =
        Some (concat (map (\<lambda>fx.
          [\<lparr>fixture_id = fx_id fx, gameweek = event fx,
            team = the (teams (team_h fx)), opponent = the (teams (team_a fx)),
            home_away = ''Home'', difficulty_rating = team_h_difficulty fx,
            kickoff_time = fixture.kickoff_time fx, finished = fixture.finished fx\<rparr>,
           \<lparr>fixture_id = fx_id fx, gameweek = event fx,
            team = the (teams (team_a fx)), opponent = the (teams (team_h fx)),
            home_away = ''Away'', difficulty_rating = team_a_difficulty fx,
            kickoff_time = fixture.kickoff_time fx, finished = fixture.finished fx\<rparr>])
          fixtures_data))"
    by (simp add: get_fpl_fdr_def home_entry_def away_entry_def)
  show "\<forall>rows. get_fpl_fdr teams fixtures_data = Some rows \<longrightarrow>
            length rows = 2 * length fixtures_data"
    by (simp add: flat length_concat o_def sum_list_triv)
next
  assume "\<exists>fx \<in> set fixtures_data. team_h fx \<notin> dom teams \<or> team_a fx \<notin> dom teams"
  from extract_fdr_unknown [OF this, of "[]"]
  show "get_fpl_fdr teams fixtures_data = None"
    by (simp add: get_fpl_fdr_def)
qed

theorem flatten_known_teams_witness:
  "get_fpl_fdr example_teams example_fixtures = Some example_df
   \<and> length example_df = 2 * length example_fixtures
   \<and> get_fpl_fdr example_teams unknown_team_fixtures = None"
  using flatten_known_teams [of example_fixtures example_teams]
    flatten_known_teams [of unknown_team_fixtures example_teams]
  by (simp add: raw_fixture_def example_teams_def example_fixtures_def
      unknown_team_fixtures_def example_defs)

text \<open>
  C7 as stated fails: a fixture whose away team id is not a key of \<open>teams\<close> yields
  no rows at all; the lookup raises \<open>KeyError\<close> and the function returns \<open>None\<close>.
  The rows of the fixtures before it are lost with it.
\<close>

theorem unknown_team_counterexample:
  "get_fpl_fdr example_teams [raw_fixture 2 2 1 9 5 1] = None
   \<and> get_fpl_fdr example_teams unknown_team_fixtures = None"
  by (simp add: flatten_defs)

end
